theory Spec2Isabelle
  imports Complex_Main "HOL-Library.AList" "HOL-Library.Sublist"
begin

section \<open>Conventions of the embedding\<close>

text \<open>
  \<^item> Python's unbounded integers are \<^typ>\<open>int\<close>. Python's floats are idealised as exact
    rationals (\<^typ>\<open>rat\<close>): sums, products and comparisons are the mathematical ones, and
    \<^verbatim>\<open>round(x, n)\<close> is rounding to \<open>n\<close> decimals with ties to even.
  \<^item> A \<^verbatim>\<open>datetime\<close> is the number of microseconds of Europe/Oslo wall-clock time since a
    fixed midnight. Every caller in bot/handlers.py passes datetimes whose tzinfo is
    \<^verbatim>\<open>NORWAY_TZ\<close> (naive values are given it on entry), and Python compares, subtracts
    and advances datetimes that share a tzinfo on the wall clock; so the tzinfo
    normalisation at the head of each function is the identity here.
  \<^item> An exception that leaves a function is the left injection of a sum.
  \<^item> Effects are explicit: the price cache table and the log of HTTP requests sent are
    a state that every function of the price layer takes and returns.
\<close>

datatype error = KeyError | ValueError

type_synonym datetime = int
type_synonym region = string

definition HOUR :: int where
  "HOUR = 3600000000"

definition DAY :: int where
  "DAY = 24 * HOUR"

text \<open>\<^verbatim>\<open>date.strftime("%Y-%m-%d")\<close>: the calendar day, as a day number.\<close>

definition date_str :: "datetime \<Rightarrow> int" where
  "date_str t = t div DAY"

text \<open>\<^verbatim>\<open>dt.hour\<close>.\<close>

definition hour_of :: "datetime \<Rightarrow> nat" where
  "hour_of t = nat ((t mod DAY) div HOUR)"

text \<open>\<^verbatim>\<open>dt.replace(minute=0, second=0, microsecond=0)\<close>.\<close>

definition replace_to_hour :: "datetime \<Rightarrow> datetime" where
  "replace_to_hour t = t - t mod HOUR"

text \<open>\<^verbatim>\<open>delta.total_seconds() / 3600\<close>.\<close>

definition total_hours_of :: "int \<Rightarrow> rat" where
  "total_hours_of delta = of_int delta / of_int HOUR"

text \<open>\<^verbatim>\<open>round(x, n)\<close> on exact values: nearest multiple of \<open>10^-n\<close>, ties to even.\<close>

definition py_round :: "rat \<Rightarrow> nat \<Rightarrow> rat" where
  "py_round x n =
     (let y = x * 10 ^ n; f = \<lfloor>y\<rfloor>; d = y - of_int f
      in (if d < 1 / 2 then of_int f
          else if 1 / 2 < d then of_int (f + 1)
          else if even f then of_int f else of_int (f + 1)) / 10 ^ n)"

section \<open>Wattage resolution (core/calculator.py)\<close>

text \<open>
  \<^verbatim>\<open>calculate_watt(low_watt, high_watt, mode)\<close>; \<^verbatim>\<open>//\<close> is floor division, which on
  \<^typ>\<open>int\<close> is \<open>div\<close>.
\<close>

definition calculate_watt :: "int \<Rightarrow> int \<Rightarrow> string \<Rightarrow> int" where
  "calculate_watt low_watt high_watt mode =
     (if mode = ''low'' then low_watt
      else if mode = ''high'' then high_watt
      else (low_watt + high_watt) div 2)"

section \<open>Price cache (database/models.py)\<close>

text \<open>
  Table \<^verbatim>\<open>price_cache\<close> has primary key (date, region, hour) and a price column; the
  column \<^verbatim>\<open>cached_at\<close> is never read. A dict from hour to price is an association list
  in insertion order with one pair per key.
\<close>

type_synonym curve = "(nat \<times> rat) list"
type_synonym cache_table = "((int \<times> region \<times> nat) \<times> rat) list"

record world =
  price_cache :: cache_table
  requests :: "(int \<times> region) list"

text \<open>
  \<^verbatim>\<open>cache_prices(date, region, prices)\<close>: one \<^verbatim>\<open>INSERT OR REPLACE\<close> per pair of the list,
  committed together at the end.
\<close>

definition insert_or_replace :: "int \<Rightarrow> region \<Rightarrow> nat \<times> rat \<Rightarrow> cache_table \<Rightarrow> cache_table" where
  "insert_or_replace d r hp tbl = AList.update (d, r, fst hp) (snd hp) tbl"

definition cache_prices :: "world \<Rightarrow> int \<Rightarrow> region \<Rightarrow> curve \<Rightarrow> world" where
  "cache_prices w d r prices =
     w\<lparr>price_cache := fold (insert_or_replace d r) prices (price_cache w)\<rparr>"

text \<open>
  \<^verbatim>\<open>get_cached_prices(date, region)\<close>: the rows of the key, \<^verbatim>\<open>None\<close> when there are none.
\<close>

definition select_rows :: "cache_table \<Rightarrow> int \<Rightarrow> region \<Rightarrow> curve" where
  "select_rows tbl d r =
     map (\<lambda>row. (snd (snd (fst row)), snd row))
       (filter (\<lambda>row. fst (fst row) = d \<and> fst (snd (fst row)) = r) tbl)"

definition get_cached_prices :: "world \<Rightarrow> int \<Rightarrow> region \<Rightarrow> curve option" where
  "get_cached_prices w d r =
     (let rows = select_rows (price_cache w) d r
      in if rows = [] then None else Some rows)"

section \<open>Price fetching (core/price_api.py)\<close>

definition VALID_REGIONS :: "region set" where
  "VALID_REGIONS = {''NO1'', ''NO2'', ''NO3'', ''NO4'', ''NO5''}"

definition MVA_RATE :: rat where
  "MVA_RATE = 1 / 4"

definition MVA_EXEMPT_REGIONS :: "region set" where
  "MVA_EXEMPT_REGIONS = {''NO4''}"

text \<open>
  The value under \<^verbatim>\<open>time_start\<close> in one element of the decoded JSON payload: the key is
  missing (the subscript raises \<^verbatim>\<open>KeyError\<close>), or its string is no ISO timestamp
  (\<^verbatim>\<open>datetime.fromisoformat\<close> raises \<^verbatim>\<open>ValueError\<close>), or it parses, and then only its hour
  is read.
\<close>

datatype timestamp = NoKey | NotIso | HourStart nat

text \<open>
  One element of the payload; \<^verbatim>\<open>NOK_per_kWh\<close> holds the number, or \<open>None\<close> when the key is
  missing.
\<close>

record entry =
  time_start :: timestamp
  NOK_per_kWh :: "rat option"

text \<open>
  What the HTTP GET of one (date, region) URL does: it raises inside the \<^verbatim>\<open>try\<close> block
  (no connection, timeout, a body that is no JSON), or it answers with a status and a
  decoded body.
\<close>

datatype response = ClientError | HttpResponse int "entry list"

record env =
  upstream :: "int \<Rightarrow> region \<Rightarrow> response"
  now :: datetime

text \<open>The loop \<^verbatim>\<open>for entry in data\<close> of \<^verbatim>\<open>fetch_daily_prices\<close>; it is outside the \<^verbatim>\<open>try\<close>.\<close>

fun parse_entries :: "rat \<Rightarrow> entry list \<Rightarrow> curve \<Rightarrow> error + curve" where
  "parse_entries mva_multiplier [] prices = Inr prices"
| "parse_entries mva_multiplier (e # data) prices =
     (case time_start e of
        NoKey \<Rightarrow> Inl KeyError
      | NotIso \<Rightarrow> Inl ValueError
      | HourStart hour \<Rightarrow>
          (case NOK_per_kWh e of
             None \<Rightarrow> Inl KeyError
           | Some price_raw \<Rightarrow>
               parse_entries mva_multiplier data
                 (AList.update hour (py_round (price_raw * mva_multiplier) 5) prices)))"

definition fetch_daily_prices ::
  "env \<Rightarrow> world \<Rightarrow> datetime \<Rightarrow> region \<Rightarrow> (error + curve option) \<times> world" where
  "fetch_daily_prices ev w date region =
     (if region \<notin> VALID_REGIONS then (Inr None, w)
      else
        (case get_cached_prices w (date_str date) region of
           Some cached \<Rightarrow> (Inr (Some cached), w)
         | None \<Rightarrow>
             (let w1 = w\<lparr>requests := requests w @ [(date_str date, region)]\<rparr>
              in case upstream ev (date_str date) region of
                   ClientError \<Rightarrow> (Inr None, w1)
                 | HttpResponse status data \<Rightarrow>
                     if status \<noteq> 200 then (Inr None, w1)
                     else
                       (case parse_entries
                               (if region \<in> MVA_EXEMPT_REGIONS then 1 else 1 + MVA_RATE)
                               data [] of
                          Inl e \<Rightarrow> (Inl e, w1)
                        | Inr prices \<Rightarrow>
                            (Inr (Some prices), cache_prices w1 (date_str date) region prices)))))"

text \<open>\<^verbatim>\<open>prices.get(hour)\<close> after the test \<^verbatim>\<open>if not prices\<close> (\<^verbatim>\<open>None\<close> or an empty dict).\<close>

definition price_at :: "curve option \<Rightarrow> nat \<Rightarrow> rat option" where
  "price_at prices h =
     (case prices of
        None \<Rightarrow> None
      | Some ps \<Rightarrow> if ps = [] then None else map_of ps h)"

definition get_current_price :: "env \<Rightarrow> world \<Rightarrow> region \<Rightarrow> (error + rat option) \<times> world" where
  "get_current_price ev w region =
     (case fetch_daily_prices ev w (now ev) region of
        (Inl e, w') \<Rightarrow> (Inl e, w')
      | (Inr prices, w') \<Rightarrow> (Inr (price_at prices (hour_of (now ev))), w'))"

definition get_price_for_hour ::
  "env \<Rightarrow> world \<Rightarrow> datetime \<Rightarrow> region \<Rightarrow> (error + rat option) \<times> world" where
  "get_price_for_hour ev w dt region =
     (case fetch_daily_prices ev w dt region of
        (Inl e, w') \<Rightarrow> (Inl e, w')
      | (Inr prices, w') \<Rightarrow> (Inr (price_at prices (hour_of dt)), w'))"

text \<open>
  The \<^verbatim>\<open>while current < end\<close> loop of \<^verbatim>\<open>get_prices_for_period\<close>: an hour whose price is
  \<^verbatim>\<open>None\<close> is not appended.
\<close>

function period_loop ::
  "env \<Rightarrow> region \<Rightarrow> datetime \<Rightarrow> datetime \<Rightarrow> (datetime \<times> rat) list \<Rightarrow> world
     \<Rightarrow> (error + (datetime \<times> rat) list) \<times> world" where
  "period_loop ev region end current prices_list w =
     (if current < end then
        (case get_price_for_hour ev w current region of
           (Inl e, w') \<Rightarrow> (Inl e, w')
         | (Inr price, w') \<Rightarrow>
             period_loop ev region end (current + HOUR)
               (case price of None \<Rightarrow> prices_list | Some p \<Rightarrow> prices_list @ [(current, p)]) w')
      else (Inr prices_list, w))"
  by pat_completeness auto
termination
  by (relation "measure (\<lambda>(ev, region, end, current, prices_list, w). nat (end - current))")
     (auto simp: HOUR_def)

declare period_loop.simps [simp del]

definition get_prices_for_period ::
  "env \<Rightarrow> world \<Rightarrow> datetime \<Rightarrow> datetime \<Rightarrow> region
     \<Rightarrow> (error + (datetime \<times> rat) list) \<times> world" where
  "get_prices_for_period ev w start end region =
     period_loop ev region end (replace_to_hour start) [] w"

section \<open>Cost engine (core/calculator.py)\<close>

record hour_row =
  row_hour :: nat
  row_fraction :: rat
  row_price :: rat
  row_kwh :: rat
  row_cost :: rat

record consumption =
  hours :: rat
  kwh :: rat
  spot_cost :: rat
  fixed_cost :: rat
  total_cost :: rat
  avg_spot_price :: rat
  hourly_breakdown :: "hour_row list"

text \<open>The clipping of one hour bucket to the session, as a fraction of the hour.\<close>

definition hour_fraction :: "datetime \<Rightarrow> datetime \<Rightarrow> datetime \<Rightarrow> rat" where
  "hour_fraction start_time end_time hour_start =
     (let hour_end = hour_start + HOUR;
          actual_start = max hour_start start_time;
          actual_end = min hour_end end_time
      in total_hours_of (actual_end - actual_start))"

text \<open>
  The \<^verbatim>\<open>for\<close> loop of \<^verbatim>\<open>calculate_session_cost\<close>; the accumulator is
  (breakdown, total_spot_cost, total_kwh).
\<close>

fun session_loop ::
  "datetime \<Rightarrow> datetime \<Rightarrow> int \<Rightarrow> (datetime \<times> rat) list
     \<Rightarrow> hour_row list \<times> rat \<times> rat \<Rightarrow> hour_row list \<times> rat \<times> rat" where
  "session_loop start_time end_time watt [] acc = acc"
| "session_loop start_time end_time watt ((hour_start, price) # rest)
       (breakdown, total_spot_cost, total_kwh) =
     (let fraction = hour_fraction start_time end_time hour_start
      in if fraction \<le> 0 then
           session_loop start_time end_time watt rest (breakdown, total_spot_cost, total_kwh)
         else
           (let hour_kwh = fraction * (of_int watt / 1000);
                hour_spot_cost = hour_kwh * price
            in session_loop start_time end_time watt rest
                 (breakdown @
                    [\<lparr>row_hour = hour_of hour_start, row_fraction = py_round fraction 2,
                      row_price = py_round price 4, row_kwh = py_round hour_kwh 4,
                      row_cost = py_round hour_spot_cost 2\<rparr>],
                  total_spot_cost + hour_spot_cost, total_kwh + hour_kwh)))"

definition zero_result :: consumption where
  "zero_result =
     \<lparr>hours = 0, kwh = 0, spot_cost = 0, fixed_cost = 0, total_cost = 0,
      avg_spot_price = 0, hourly_breakdown = []\<rparr>"

text \<open>The result of the fallback branch, for the price it settled on.\<close>

definition fallback_result :: "rat \<Rightarrow> int \<Rightarrow> rat \<Rightarrow> rat \<Rightarrow> consumption" where
  "fallback_result total_hours watt fixed_cost_per_kwh current_price =
     (let kwh = total_hours * (of_int watt / 1000);
          spot_cost = kwh * current_price;
          fixed_cost = kwh * fixed_cost_per_kwh
      in \<lparr>hours = py_round total_hours 2, kwh = py_round kwh 4,
          spot_cost = py_round spot_cost 2, fixed_cost = py_round fixed_cost 2,
          total_cost = py_round (spot_cost + fixed_cost) 2,
          avg_spot_price = py_round current_price 4, hourly_breakdown = []\<rparr>)"

text \<open>The result of the per-hour branch, from what the loop accumulated.\<close>

definition hourly_result ::
  "rat \<Rightarrow> rat \<Rightarrow> hour_row list \<times> rat \<times> rat \<Rightarrow> consumption" where
  "hourly_result total_hours fixed_cost_per_kwh acc =
     (case acc of (breakdown, total_spot_cost, total_kwh) \<Rightarrow>
        (let total_fixed_cost = total_kwh * fixed_cost_per_kwh;
             avg_spot_price = (if 0 < total_kwh then total_spot_cost / total_kwh else 0)
         in \<lparr>hours = py_round total_hours 2, kwh = py_round total_kwh 4,
             spot_cost = py_round total_spot_cost 2, fixed_cost = py_round total_fixed_cost 2,
             total_cost = py_round (total_spot_cost + total_fixed_cost) 2,
             avg_spot_price = py_round avg_spot_price 4, hourly_breakdown = breakdown\<rparr>))"

definition calculate_session_cost ::
  "env \<Rightarrow> world \<Rightarrow> datetime \<Rightarrow> datetime \<Rightarrow> int \<Rightarrow> rat \<Rightarrow> region
     \<Rightarrow> (error + consumption) \<times> world" where
  "calculate_session_cost ev w start_time end_time watt fixed_cost_per_kwh region =
     (let total_hours = total_hours_of (end_time - start_time)
      in if total_hours \<le> 0 then (Inr zero_result, w)
         else
           (case get_prices_for_period ev w start_time end_time region of
              (Inl e, w1) \<Rightarrow> (Inl e, w1)
            | (Inr hourly_prices, w1) \<Rightarrow>
                if hourly_prices = [] then
                  (case get_current_price ev w1 region of
                     (Inl e, w2) \<Rightarrow> (Inl e, w2)
                   | (Inr current_price, w2) \<Rightarrow>
                       (Inr (fallback_result total_hours watt fixed_cost_per_kwh
                               (case current_price of None \<Rightarrow> 3 / 2 | Some p \<Rightarrow> p)), w2))
                else
                  (Inr (hourly_result total_hours fixed_cost_per_kwh
                          (session_loop start_time end_time watt hourly_prices ([], 0, 0))), w1)))"

definition estimate_current_cost ::
  "env \<Rightarrow> world \<Rightarrow> datetime \<Rightarrow> int \<Rightarrow> rat \<Rightarrow> region \<Rightarrow> (error + consumption) \<times> world" where
  "estimate_current_cost ev w start_time watt fixed_cost_per_kwh region =
     calculate_session_cost ev w start_time (now ev) watt fixed_cost_per_kwh region"

section \<open>Billing period and sessions (database/models.py)\<close>

text \<open>A calendar date is (year, month, day), as \<^verbatim>\<open>datetime.date\<close> holds it.\<close>

type_synonym pydate = "int \<times> int \<times> int"

text \<open>\<^verbatim>\<open>calendar.isleap\<close> and the day count that \<^verbatim>\<open>calendar.monthrange\<close> returns.\<close>

definition isleap :: "int \<Rightarrow> bool" where
  "isleap year = (year mod 4 = 0 \<and> (year mod 100 \<noteq> 0 \<or> year mod 400 = 0))"

definition mdays :: "int list" where
  "mdays = [0, 31, 28, 31, 30, 31, 30, 31, 31, 30, 31, 30, 31]"

definition days_in_month :: "int \<Rightarrow> int \<Rightarrow> int" where
  "days_in_month year month =
     mdays ! nat month + (if month = 2 \<and> isleap year then 1 else 0)"

definition monthrange :: "int \<Rightarrow> int \<Rightarrow> error + int" where
  "monthrange year month =
     (if \<not> (1 \<le> month \<and> month \<le> 12) then Inl ValueError
      else Inr (days_in_month year month))"

text \<open>
  The constructor \<^verbatim>\<open>date(year, month, day)\<close> raises \<^verbatim>\<open>ValueError\<close> outside
  \<^verbatim>\<open>MINYEAR..MAXYEAR\<close>, outside months 1 to 12 and for a day the month does not have.
\<close>

definition date :: "int \<Rightarrow> int \<Rightarrow> int \<Rightarrow> error + pydate" where
  "date year month day =
     (if 1 \<le> year \<and> year \<le> 9999 \<and> 1 \<le> month \<and> month \<le> 12 \<and>
         1 \<le> day \<and> day \<le> days_in_month year month
      then Inr (year, month, day) else Inl ValueError)"

text \<open>
  The first half of \<^verbatim>\<open>get_monthly_sessions\<close>: the pair (start_date, end_date), or the
  exception of the first constructor that raises.
\<close>

definition period_window :: "int \<Rightarrow> int \<Rightarrow> int \<Rightarrow> error + pydate \<times> pydate" where
  "period_window year month period_start_day =
     (if period_start_day = 1 then
        (case date year month 1 of
           Inl e \<Rightarrow> Inl e
         | Inr start_date \<Rightarrow>
             (case monthrange year month of
                Inl e \<Rightarrow> Inl e
              | Inr last_day \<Rightarrow>
                  (case date year month last_day of
                     Inl e \<Rightarrow> Inl e
                   | Inr end_date \<Rightarrow> Inr (start_date, end_date))))
      else
        (let prev_month = (if month = 1 then 12 else month - 1);
             prev_year = (if month = 1 then year - 1 else year)
         in case date prev_year prev_month period_start_day of
              Inl e \<Rightarrow> Inl e
            | Inr start_date \<Rightarrow>
                (case (if period_start_day > 1 then date year month (period_start_day - 1)
                       else (case monthrange year month of
                               Inl e \<Rightarrow> Inl e
                             | Inr last_day \<Rightarrow> date year month last_day)) of
                   Inl e \<Rightarrow> Inl e
                 | Inr end_date \<Rightarrow> Inr (start_date, end_date))))"

text \<open>
  Rows of table \<^verbatim>\<open>sessions\<close>. \<^verbatim>\<open>end_date\<close> is what SQLite's \<^verbatim>\<open>date(end_time)\<close> gives
  and \<^verbatim>\<open>end_clock\<close> the time of day within it; both are read only when \<^verbatim>\<open>ended\<close>
  holds (\<^verbatim>\<open>end_time IS NOT NULL\<close>).
\<close>

record session =
  session_user :: int
  apparat_id :: int
  ended :: bool
  end_date :: pydate
  end_clock :: int
  cancelled :: bool
  total_cost_nok :: "rat option"

record settings =
  cfg_fixed_cost_nok :: rat
  cfg_budget_nok :: "rat option"
  cfg_period_start_day :: int
  cfg_region :: region
  cfg_max_duration_hours :: int

record database =
  sessions :: "session list"
  apparater :: "int list"
  user_settings :: "(int \<times> settings) list"

text \<open>
  ISO dates of four-digit years compare as text the way their fields compare
  lexicographically; \<^verbatim>\<open>BETWEEN\<close> includes both ends.
\<close>

definition date_le :: "pydate \<Rightarrow> pydate \<Rightarrow> bool" where
  "date_le a b =
     (case a of (y1, m1, d1) \<Rightarrow> case b of (y2, m2, d2) \<Rightarrow>
        y1 < y2 \<or> (y1 = y2 \<and> (m1 < m2 \<or> (m1 = m2 \<and> d1 \<le> d2))))"

definition end_time_key :: "session \<Rightarrow> int" where
  "end_time_key s =
     (case end_date s of (y, m, d) \<Rightarrow> ((y * 100 + m) * 100 + d) * DAY + end_clock s)"

text \<open>
  \<^verbatim>\<open>get_monthly_sessions\<close>: the join keeps a session whose appliance row exists
  (\<^verbatim>\<open>apparater\<close> lists the ids), newest end first.
\<close>

definition get_monthly_sessions ::
  "database \<Rightarrow> int \<Rightarrow> int \<Rightarrow> int \<Rightarrow> int \<Rightarrow> error + session list" where
  "get_monthly_sessions db user_id year month period_start_day =
     (case period_window year month period_start_day of
        Inl e \<Rightarrow> Inl e
      | Inr (start_date, end_date') \<Rightarrow>
          Inr (rev (sort_key end_time_key
                 (filter (\<lambda>s. apparat_id s \<in> set (apparater db) \<and> session_user s = user_id \<and>
                               ended s \<and> \<not> cancelled s \<and>
                               date_le start_date (end_date s) \<and> date_le (end_date s) end_date')
                    (sessions db)))))"

definition default_settings :: settings where
  "default_settings =
     \<lparr>cfg_fixed_cost_nok = 1, cfg_budget_nok = None, cfg_period_start_day = 1,
      cfg_region = ''NO1'', cfg_max_duration_hours = 0\<rparr>"

text \<open>\<^verbatim>\<open>get_user_settings\<close>: the row of the user, inserted with the defaults when missing.\<close>

definition get_user_settings :: "database \<Rightarrow> int \<Rightarrow> settings \<times> database" where
  "get_user_settings db user_id =
     (case map_of (user_settings db) user_id of
        Some row \<Rightarrow> (row, db)
      | None \<Rightarrow>
          (default_settings,
           db\<lparr>user_settings := user_settings db @ [(user_id, default_settings)]\<rparr>))"

section \<open>Budget alert (core/alerts.py)\<close>

text \<open>
  The two messages of \<^verbatim>\<open>check_budget_alert\<close>, each with the values its format string
  prints: (total_cost, budget, percentage) and (percentage, remaining).
\<close>

datatype alert = BudgetExceeded rat rat rat | BudgetWarning rat rat

text \<open>\<^verbatim>\<open>sum(s.get("total_cost_nok", 0) or 0 for s in sessions)\<close>.\<close>

definition sum_total_cost :: "session list \<Rightarrow> rat" where
  "sum_total_cost rows =
     sum_list (map (\<lambda>s. case total_cost_nok s of None \<Rightarrow> 0 | Some c \<Rightarrow> c) rows)"

text \<open>
  \<^verbatim>\<open>check_budget_alert(user_id)\<close>; \<open>now_year\<close> and \<open>now_month\<close> are the fields of
  \<^verbatim>\<open>datetime.now(NORWAY_TZ)\<close>. \<^verbatim>\<open>not budget\<close> holds for \<^verbatim>\<open>None\<close> and for zero.
\<close>

definition check_budget_alert ::
  "database \<Rightarrow> int \<Rightarrow> int \<Rightarrow> int \<Rightarrow> (error + alert option) \<times> database" where
  "check_budget_alert db now_year now_month user_id =
     (case get_user_settings db user_id of (settings, db1) \<Rightarrow>
        (case cfg_budget_nok settings of
           None \<Rightarrow> (Inr None, db1)
         | Some budget \<Rightarrow>
             if budget = 0 \<or> budget \<le> 0 then (Inr None, db1)
             else
               (case get_monthly_sessions db1 user_id now_year now_month
                       (cfg_period_start_day settings) of
                  Inl e \<Rightarrow> (Inl e, db1)
                | Inr rows \<Rightarrow>
                    (let total_cost = sum_total_cost rows;
                         percentage = (total_cost / budget) * 100
                     in if percentage \<ge> 100 then
                          (Inr (Some (BudgetExceeded total_cost budget percentage)), db1)
                        else if percentage \<ge> 80 then
                          (Inr (Some (BudgetWarning percentage (budget - total_cost))), db1)
                        else (Inr None, db1)))))"

section \<open>Hour buckets and the fractions the engine uses\<close>

text \<open>
  The values that \<^verbatim>\<open>current\<close> takes in the loop of \<^verbatim>\<open>get_prices_for_period\<close>: the hour
  buckets that meet the interval.
\<close>

function buckets_from :: "datetime \<Rightarrow> datetime \<Rightarrow> datetime list" where
  "buckets_from current end =
     (if current < end then current # buckets_from (current + HOUR) end else [])"
  by pat_completeness auto
termination
  by (relation "measure (\<lambda>(current, end). nat (end - current))") (auto simp: HOUR_def)

declare buckets_from.simps [simp del]

definition hour_buckets :: "datetime \<Rightarrow> datetime \<Rightarrow> datetime list" where
  "hour_buckets start end = buckets_from (replace_to_hour start) end"

text \<open>
  The hour fractions that the loop of \<^verbatim>\<open>calculate_session_cost\<close> adds up: one for each
  listed hour, those that are not positive skipped.
\<close>

definition used_fractions :: "datetime \<Rightarrow> datetime \<Rightarrow> (datetime \<times> rat) list \<Rightarrow> rat list" where
  "used_fractions start_time end_time hourly_prices =
     filter (\<lambda>f. 0 < f) (map (\<lambda>hp. hour_fraction start_time end_time (fst hp)) hourly_prices)"

section \<open>Stable prices\<close>

text \<open>
  What a request for (date, region) resolves to when it is served by the upstream, the
  cache aside: the curve that \<^verbatim>\<open>fetch_daily_prices\<close> parses, or its exception.
\<close>

definition upstream_curve :: "env \<Rightarrow> int \<Rightarrow> region \<Rightarrow> error + curve option" where
  "upstream_curve ev d r =
     (case upstream ev d r of
        ClientError \<Rightarrow> Inr None
      | HttpResponse status data \<Rightarrow>
          if status \<noteq> 200 then Inr None
          else (case parse_entries (if r \<in> MVA_EXEMPT_REGIONS then 1 else 1 + MVA_RATE) data [] of
                  Inl e \<Rightarrow> Inl e
                | Inr prices \<Rightarrow> Inr (Some prices)))"

text \<open>The price of the hour of \<open>t\<close> in that curve.\<close>

definition upstream_price :: "env \<Rightarrow> region \<Rightarrow> datetime \<Rightarrow> error + rat option" where
  "upstream_price ev r t =
     (case upstream_curve ev (date_str t) r of
        Inl e \<Rightarrow> Inl e
      | Inr c \<Rightarrow> Inr (price_at c (hour_of t)))"

text \<open>
  The cache agrees with the upstream: whatever is cached for a key is what the upstream
  serves for it (settled prices do not change).
\<close>

definition coherent :: "env \<Rightarrow> world \<Rightarrow> bool" where
  "coherent ev w =
     (\<forall>d r. r \<in> VALID_REGIONS \<longrightarrow> select_rows (price_cache w) d r \<noteq> [] \<longrightarrow>
        (\<exists>c. upstream_curve ev d r = Inr (Some c) \<and>
             (\<forall>h. map_of c h = map_of (price_cache w) (d, r, h))))"

section \<open>Sample environments\<close>

text \<open>An upstream that cannot be reached, and a state with nothing cached.\<close>

definition offline :: env where
  "offline = \<lparr>upstream = (\<lambda>d r. ClientError), now = 0\<rparr>"

definition empty_world :: world where
  "empty_world = \<lparr>price_cache = [], requests = []\<rparr>"

text \<open>
  Day 0 cannot be fetched; the payload of day 1, which is today, has status 200 and one
  element without the key \<^verbatim>\<open>NOK_per_kWh\<close>.
\<close>

definition malformed_today :: env where
  "malformed_today =
     \<lparr>upstream = (\<lambda>d r. if d = 1
                           then HttpResponse 200 [\<lparr>time_start = HourStart 0, NOK_per_kWh = None\<rparr>]
                           else ClientError),
      now = DAY\<rparr>"

text \<open>
  The payload of a day on which summer time begins: 23 elements, hour 2 does not exist.
\<close>

definition spring_forward :: env where
  "spring_forward =
     \<lparr>upstream = (\<lambda>d r. HttpResponse 200
                            (map (\<lambda>h. \<lparr>time_start = HourStart h, NOK_per_kWh = Some 1\<rparr>)
                               ([0, 1] @ [3..<24]))),
      now = 0\<rparr>"

text \<open>
  A flat raw price of 1 for all 24 hours, on day 0 only or on day 1 only or on every
  day; the other days cannot be fetched.
\<close>

definition flat_day :: "entry list" where
  "flat_day = map (\<lambda>h. \<lparr>time_start = HourStart h, NOK_per_kWh = Some 1\<rparr>) [0..<24]"

definition day0_only :: env where
  "day0_only =
     \<lparr>upstream = (\<lambda>d r. if d = 0 then HttpResponse 200 flat_day else ClientError), now = 0\<rparr>"

definition day1_only :: env where
  "day1_only =
     \<lparr>upstream = (\<lambda>d r. if d = 1 then HttpResponse 200 flat_day else ClientError), now = 0\<rparr>"

definition every_day :: env where
  "every_day = \<lparr>upstream = (\<lambda>d r. HttpResponse 200 flat_day), now = 0\<rparr>"

text \<open>A state in which hours 0 and 1 of (day 0, NO1) are cached.\<close>

definition two_hours_cached :: world where
  "two_hours_cached =
     \<lparr>price_cache = [((0, ''NO1'', 0), 1), ((0, ''NO1'', 1), 2)], requests = []\<rparr>"

text \<open>
  One user (7) with a budget of 1000 and one finished session of the given total cost in
  March 2025.
\<close>

definition one_session_db :: "rat \<Rightarrow> database" where
  "one_session_db cost =
     \<lparr>sessions = [\<lparr>session_user = 7, apparat_id = 1, ended = True, end_date = (2025, 3, 10),
                   end_clock = 0, cancelled = False, total_cost_nok = Some cost\<rparr>],
      apparater = [1],
      user_settings = [(7, default_settings\<lparr>cfg_budget_nok := Some 1000\<rparr>)]\<rparr>"

section \<open>Properties of wattage resolution\<close>

lemma floor_half_of_int: "\<lfloor>(of_int n :: rat) / 2\<rfloor> = n div 2"
proof -
  have "\<lfloor>(of_int n :: rat) / of_int 2\<rfloor> = n div 2"
    by (rule floor_divide_of_int_eq)
  then show ?thesis by simp
qed

text \<open>
  Claim C8. Wattage resolution is a function of (low, high, mode) alone: mode "low"
  returns the low bound, mode "high" the high bound, mode "avg" the floor of
  (low + high) / 2, and when both bounds coincide all three modes return that value.
\<close>

theorem calculate_watt_modes:
  "calculate_watt low high ''low'' = low \<and>
   calculate_watt low high ''high'' = high \<and>
   calculate_watt low high ''avg'' = \<lfloor>(of_int (low + high) :: rat) / 2\<rfloor> \<and>
   calculate_watt w w ''low'' = w \<and>
   calculate_watt w w ''high'' = w \<and>
   calculate_watt w w ''avg'' = w"
  unfolding floor_half_of_int by (simp add: calculate_watt_def)

text \<open>
  Claim C10. Any mode string other than "low" and "high" (the empty string and
  misspellings included) is treated as "avg": the result is the floor of
  (low + high) / 2 and no mode is rejected.
\<close>

theorem calculate_watt_unknown_mode:
  "mode \<noteq> ''low'' \<Longrightarrow> mode \<noteq> ''high'' \<Longrightarrow>
   calculate_watt low high mode = \<lfloor>(of_int (low + high) :: rat) / 2\<rfloor>"
  unfolding floor_half_of_int by (simp add: calculate_watt_def)

theorem calculate_watt_unknown_mode_witness:
  "'''' \<noteq> ''low'' \<and> '''' \<noteq> ''high'' \<and>
   calculate_watt 100 201 '''' = \<lfloor>(of_int (100 + 201) :: rat) / 2\<rfloor> \<and>
   calculate_watt 100 201 '''' = 150"
  using calculate_watt_unknown_mode [of "''''" 100 201]
  by (simp add: calculate_watt_def)

section \<open>Degenerate intervals\<close>

lemma total_hours_of_le0: "total_hours_of delta \<le> 0 \<longleftrightarrow> delta \<le> 0"
  by (simp add: total_hours_of_def HOUR_def divide_le_0_iff)

text \<open>
  Claim C7. When the end is not after the start, the cost is the zero result (duration,
  energy, spot cost, fixed cost, total cost and average price all 0, no breakdown), no
  exception is raised, and the state is returned as it was: nothing is fetched and
  nothing is cached.
\<close>

theorem degenerate_interval_zero:
  "end_time \<le> start_time \<Longrightarrow>
   calculate_session_cost ev w start_time end_time watt fixed_cost_per_kwh region =
     (Inr \<lparr>hours = 0, kwh = 0, spot_cost = 0, fixed_cost = 0, total_cost = 0,
           avg_spot_price = 0, hourly_breakdown = []\<rparr>, w)"
  by (simp add: calculate_session_cost_def total_hours_of_le0 zero_result_def)

theorem degenerate_interval_zero_witness:
  "(5::int) \<le> 5 \<and> (3::int) \<le> 5 \<and>
   calculate_session_cost malformed_today empty_world 5 5 1000 1 ''NO1'' =
     (Inr \<lparr>hours = 0, kwh = 0, spot_cost = 0, fixed_cost = 0, total_cost = 0,
           avg_spot_price = 0, hourly_breakdown = []\<rparr>, empty_world) \<and>
   calculate_session_cost malformed_today empty_world 5 3 1000 1 ''NO1'' =
     (Inr \<lparr>hours = 0, kwh = 0, spot_cost = 0, fixed_cost = 0, total_cost = 0,
           avg_spot_price = 0, hourly_breakdown = []\<rparr>, empty_world)"
  using degenerate_interval_zero [of 5 5 malformed_today empty_world 1000 1 "''NO1''"]
    degenerate_interval_zero [of 3 5 malformed_today empty_world 1000 1 "''NO1''"]
  by simp

section \<open>The billing window\<close>

lemma days_in_month_bounds:
  assumes "1 \<le> month" "month \<le> 12"
  shows "28 \<le> days_in_month year month \<and> days_in_month year month \<le> 31"
proof -
  from assms have "month = 1 \<or> month = 2 \<or> month = 3 \<or> month = 4 \<or> month = 5 \<or> month = 6 \<or>
    month = 7 \<or> month = 8 \<or> month = 9 \<or> month = 10 \<or> month = 11 \<or> month = 12"
    by arith
  then show ?thesis
    by (elim disjE) (simp_all add: days_in_month_def mdays_def)
qed

text \<open>
  Claim C5. With period start day 1 the window is the calendar month, from day 1 to the
  last day of (year, month) (the day after it is no date). With period start day
  \<open>d > 1\<close> the window starts on day \<open>d\<close> of the preceding month (December of the year
  before when the month is January) and ends on day \<open>d - 1\<close> of (year, month), for
  every year, month and \<open>d\<close> for which these two dates exist. For start day 5 and
  March 2025 the window is 2025-02-05 to 2025-03-04.
\<close>

theorem period_window_spec:
  "(1 \<le> year \<and> year \<le> 9999 \<and> 1 \<le> month \<and> month \<le> 12 \<longrightarrow>
      period_window year month 1 =
        Inr ((year, month, 1), (year, month, days_in_month year month)) \<and>
      date year month (days_in_month year month + 1) = Inl ValueError) \<and>
   (1 < d \<and> 1 \<le> month \<and> month \<le> 12 \<and> year \<le> 9999 \<and>
    prev_year = (if month = 1 then year - 1 else year) \<and>
    prev_month = (if month = 1 then 12 else month - 1) \<and> 1 \<le> prev_year \<and>
    d \<le> days_in_month prev_year prev_month \<and> d - 1 \<le> days_in_month year month \<longrightarrow>
      period_window year month d = Inr ((prev_year, prev_month, d), (year, month, d - 1))) \<and>
   period_window 2025 3 5 = Inr ((2025, 2, 5), (2025, 3, 4))"
proof (intro conjI impI)
  assume a: "1 \<le> year \<and> year \<le> 9999 \<and> 1 \<le> month \<and> month \<le> 12"
  then have b: "28 \<le> days_in_month year month"
    using days_in_month_bounds by blast
  show "period_window year month 1 =
        Inr ((year, month, 1), (year, month, days_in_month year month))"
    using a b by (simp add: period_window_def date_def monthrange_def)
  show "date year month (days_in_month year month + 1) = Inl ValueError"
    by (simp add: date_def)
next
  assume "1 < d \<and> 1 \<le> month \<and> month \<le> 12 \<and> year \<le> 9999 \<and>
    prev_year = (if month = 1 then year - 1 else year) \<and>
    prev_month = (if month = 1 then 12 else month - 1) \<and> 1 \<le> prev_year \<and>
    d \<le> days_in_month prev_year prev_month \<and> d - 1 \<le> days_in_month year month"
  then show "period_window year month d =
      Inr ((prev_year, prev_month, d), (year, month, d - 1))"
    by (auto simp add: period_window_def date_def Let_def split: if_splits)
next
  show "period_window 2025 3 5 = Inr ((2025, 2, 5), (2025, 3, 4))"
    by (simp add: period_window_def date_def days_in_month_def mdays_def isleap_def)
qed

theorem period_window_spec_witness:
  "period_window 2024 2 1 = Inr ((2024, 2, 1), (2024, 2, 29)) \<and>
   date 2024 2 30 = Inl ValueError \<and>
   period_window 2025 1 15 = Inr ((2024, 12, 15), (2025, 1, 14)) \<and>
   period_window 2025 3 5 = Inr ((2025, 2, 5), (2025, 3, 4))"
  using period_window_spec [where year = 2024 and month = 2 and d = 15 and prev_year = 2024
      and prev_month = 1]
    period_window_spec [where year = 2025 and month = 1 and d = 15 and prev_year = 2024
      and prev_month = 12]
  by (simp add: days_in_month_def mdays_def isleap_def)

section \<open>The budget alert\<close>

text \<open>
  Claim C6. The budget check returns no alert when the budget is unset or at most 0.
  Otherwise, with percentage = cost / budget * 100 over the sessions of the current
  billing window, it returns one value: the "exceeded" alert when the percentage is at
  least 100, else the "warning" alert when it is at least 80, else none; so exceeded
  wins over warning, 79.9 percent gives none and 80.0 percent gives the warning.
\<close>

theorem budget_alert_thresholds:
  "get_user_settings db user_id = (st, db1) \<Longrightarrow>
   (cfg_budget_nok st = None \<or> (\<exists>b. cfg_budget_nok st = Some b \<and> b \<le> 0) \<longrightarrow>
      fst (check_budget_alert db now_year now_month user_id) = Inr None) \<and>
   (\<forall>budget rows cost percentage.
      cfg_budget_nok st = Some budget \<and> 0 < budget \<and>
      get_monthly_sessions db1 user_id now_year now_month (cfg_period_start_day st) = Inr rows \<and>
      cost = sum_total_cost rows \<and> percentage = cost / budget * 100 \<longrightarrow>
      fst (check_budget_alert db now_year now_month user_id) =
        Inr (if 100 \<le> percentage then Some (BudgetExceeded cost budget percentage)
             else if 80 \<le> percentage then Some (BudgetWarning percentage (budget - cost))
             else None))"
  by (auto simp add: check_budget_alert_def Let_def split: option.splits)

theorem budget_alert_thresholds_witness:
  "fst (check_budget_alert (one_session_db 799) 2025 3 7) = Inr None \<and>
   fst (check_budget_alert (one_session_db 800) 2025 3 7) = Inr (Some (BudgetWarning 80 200)) \<and>
   fst (check_budget_alert (one_session_db 1000) 2025 3 7) =
     Inr (Some (BudgetExceeded 1000 1000 100)) \<and>
   fst (check_budget_alert ((one_session_db 1000)\<lparr>user_settings := []\<rparr>) 2025 3 7) = Inr None"
proof -
  let ?st = "default_settings\<lparr>cfg_budget_nok := Some 1000\<rparr>"
  have s: "get_user_settings (one_session_db c) 7 = (?st, one_session_db c)" for c
    by (simp add: get_user_settings_def one_session_db_def)
  have m: "get_monthly_sessions (one_session_db c) 7 2025 3 (cfg_period_start_day ?st) =
      Inr (sessions (one_session_db c))" for c
    by (simp add: get_monthly_sessions_def one_session_db_def default_settings_def
        period_window_def date_def monthrange_def days_in_month_def mdays_def isleap_def
        date_le_def)
  have c: "sum_total_cost (sessions (one_session_db c)) = c" for c
    by (simp add: sum_total_cost_def one_session_db_def)
  have b: "cfg_budget_nok ?st = Some 1000 \<and> (0::rat) < 1000"
    by (simp add: default_settings_def)
  have t: "fst (check_budget_alert (one_session_db c) 2025 3 7) =
        Inr (if 100 \<le> c / 1000 * 100 then Some (BudgetExceeded c 1000 (c / 1000 * 100))
             else if 80 \<le> c / 1000 * 100 then Some (BudgetWarning (c / 1000 * 100) (1000 - c))
             else None)" for c
  proof (rule budget_alert_thresholds [OF s, of c 2025 3, THEN conjunct2, THEN spec, THEN spec,
        THEN spec, THEN spec, THEN mp])
    show "cfg_budget_nok ?st = Some 1000 \<and> 0 < (1000::rat) \<and>
      get_monthly_sessions (one_session_db c) 7 2025 3 (cfg_period_start_day ?st) =
        Inr (sessions (one_session_db c)) \<and>
      c = sum_total_cost (sessions (one_session_db c)) \<and> c / 1000 * 100 = c / 1000 * 100"
      using m [of c] c [of c] b by simp
  qed
  have u: "get_user_settings ((one_session_db 1000)\<lparr>user_settings := []\<rparr>) 7 =
      (default_settings,
       (one_session_db 1000)\<lparr>user_settings := [(7, default_settings)]\<rparr>)"
    by (simp add: get_user_settings_def)
  have n: "fst (check_budget_alert ((one_session_db 1000)\<lparr>user_settings := []\<rparr>) 2025 3 7) = Inr None"
    using budget_alert_thresholds [OF u, of 2025 3] by (simp add: default_settings_def)
  show ?thesis
    using t [of 799] t [of 800] t [of 1000] n by simp
qed

section \<open>Regions outside the fixed set\<close>

lemma fetch_invalid_region:
  "region \<notin> VALID_REGIONS \<Longrightarrow> fetch_daily_prices ev w dt region = (Inr None, w)"
  by (simp add: fetch_daily_prices_def)

lemma price_for_hour_invalid_region:
  "region \<notin> VALID_REGIONS \<Longrightarrow> get_price_for_hour ev w dt region = (Inr None, w)"
  by (simp add: get_price_for_hour_def fetch_invalid_region price_at_def)

lemma period_loop_invalid_region:
  "region \<notin> VALID_REGIONS \<Longrightarrow>
   period_loop ev region end current prices_list w = (Inr prices_list, w)"
proof (induction ev region "end" current prices_list w rule: period_loop.induct)
  case (1 ev region "end" current prices_list w)
  show ?case
  proof (cases "current < end")
    case True
    have "period_loop ev region end current prices_list w =
          period_loop ev region end (current + HOUR) prices_list w"
      using True "1.prems"
      by (subst period_loop.simps) (simp add: price_for_hour_invalid_region)
    also have "\<dots> = (Inr prices_list, w)"
      using "1.IH" "1.prems" True
      by (simp add: price_for_hour_invalid_region)
    finally show ?thesis .
  next
    case False
    then show ?thesis by (subst period_loop.simps) simp
  qed
qed

text \<open>
  Claim C2, as the code has it. A region outside NO1 to NO5 raises nothing: the
  price-curve request returns \<^verbatim>\<open>None\<close> before the cache is read or a request is sent
  (the state is returned unchanged), and the cost of an interval with start before end
  is the successful fallback result at the emergency price 1.5. A request that fails in
  transport or is answered with a status other than 200 likewise yields \<^verbatim>\<open>None\<close>, not
  an error.
\<close>

theorem invalid_region_absorbed:
  "(region \<notin> VALID_REGIONS \<longrightarrow>
      fetch_daily_prices ev w dt region = (Inr None, w) \<and>
      (start_time < end_time \<longrightarrow>
         calculate_session_cost ev w start_time end_time watt fixed_cost_per_kwh region =
           (Inr (fallback_result (total_hours_of (end_time - start_time)) watt
                   fixed_cost_per_kwh (3 / 2)), w))) \<and>
   (region \<in> VALID_REGIONS \<and> get_cached_prices w (date_str dt) region = None \<and>
    (upstream ev (date_str dt) region = ClientError \<or>
     (\<exists>status data. upstream ev (date_str dt) region = HttpResponse status data \<and>
        status \<noteq> 200)) \<longrightarrow>
      fetch_daily_prices ev w dt region =
        (Inr None, w\<lparr>requests := requests w @ [(date_str dt, region)]\<rparr>))"
  by (auto simp add: fetch_invalid_region calculate_session_cost_def total_hours_of_le0
      get_prices_for_period_def period_loop_invalid_region get_current_price_def price_at_def
      fetch_daily_prices_def)

theorem invalid_region_absorbed_witness:
  "''XX'' \<notin> VALID_REGIONS \<and> (0::int) < HOUR \<and>
   fetch_daily_prices offline empty_world 0 ''XX'' = (Inr None, empty_world) \<and>
   calculate_session_cost offline empty_world 0 HOUR 1000 1 ''XX'' =
     (Inr (fallback_result 1 1000 1 (3 / 2)), empty_world) \<and>
   fetch_daily_prices offline empty_world 0 ''NO1'' =
     (Inr None, \<lparr>price_cache = [], requests = [(0, ''NO1'')]\<rparr>)"
  using invalid_region_absorbed [of "''XX''" offline empty_world 0 0 HOUR 1000 1]
    invalid_region_absorbed [of "''NO1''" offline empty_world 0 0 HOUR 1000 1]
  by (simp add: VALID_REGIONS_def HOUR_def total_hours_of_def offline_def empty_world_def
      get_cached_prices_def select_rows_def date_str_def DAY_def)

text \<open>
  Claim C2 as stated fails: for the region code XX the price-curve request returns
  \<^verbatim>\<open>None\<close> and the cost call returns a result; neither is an error.
\<close>

theorem invalid_region_no_error:
  "''XX'' \<notin> VALID_REGIONS \<and>
   fetch_daily_prices offline empty_world 0 ''XX'' = (Inr None, empty_world) \<and>
   calculate_session_cost offline empty_world 0 HOUR 1000 1 ''XX'' =
     (Inr \<lparr>hours = 1, kwh = 1, spot_cost = 3 / 2, fixed_cost = 1, total_cost = 5 / 2,
           avg_spot_price = 3 / 2, hourly_breakdown = []\<rparr>, empty_world)"
  by code_simp

section \<open>The fallback branch\<close>

text \<open>
  When the period yields no priced hour and the current-price lookup returns, the call
  succeeds with the whole-interval result at the current price, or at 1.5 when the
  lookup returned \<^verbatim>\<open>None\<close>.
\<close>

lemma fallback_when_unpriced:
  assumes "start_time < end_time"
    and "get_prices_for_period ev w start_time end_time region = (Inr [], w1)"
    and "get_current_price ev w1 region = (Inr current_price, w2)"
  shows "calculate_session_cost ev w start_time end_time watt fixed_cost_per_kwh region =
     (Inr (fallback_result (total_hours_of (end_time - start_time)) watt fixed_cost_per_kwh
             (case current_price of None \<Rightarrow> 3 / 2 | Some p \<Rightarrow> p)), w2)"
  using assms by (simp add: calculate_session_cost_def total_hours_of_le0)

section \<open>A payload with a missing key\<close>

text \<open>
  Claim C1 at a failing input. The hour of the interval (day 0) has no price because
  the request cannot be made; the current price is not obtainable either, because
  today's payload lacks a key. The parse loop raises \<^verbatim>\<open>KeyError\<close> outside the \<^verbatim>\<open>try\<close>
  block and the cost call fails instead of using the emergency price.
\<close>

theorem malformed_payload_raises:
  "fst (get_prices_for_period malformed_today empty_world 0 HOUR ''NO1'') = Inr [] \<and>
   fst (calculate_session_cost malformed_today empty_world 0 HOUR 1000 1 ''NO1'') = Inl KeyError"
  by code_simp

section \<open>Cache writes\<close>

lemma map_of_select_rows: "map_of (select_rows tbl d r) h = map_of tbl (d, r, h)"
  by (induction tbl) (auto simp: select_rows_def)

lemma select_rows_update_other:
  "(d', r') \<noteq> (d, r) \<Longrightarrow>
   select_rows (AList.update (d, r, h) p tbl) d' r' = select_rows tbl d' r'"
  by (induction tbl) (auto simp: select_rows_def)

lemma select_rows_fold_other:
  "(d', r') \<noteq> (d, r) \<Longrightarrow>
   select_rows (fold (insert_or_replace d r) prices tbl) d' r' = select_rows tbl d' r'"
  by (induction prices arbitrary: tbl) (auto simp: insert_or_replace_def select_rows_update_other)

lemma map_of_fold_insert:
  "map_of (fold (insert_or_replace d r) prices tbl) (d, r, h) =
     (case map_of (rev prices) h of Some p \<Rightarrow> Some p | None \<Rightarrow> map_of tbl (d, r, h))"
proof (induction prices arbitrary: tbl)
  case Nil
  then show ?case by simp
next
  case (Cons x prices)
  then show ?case
    by (cases x) (auto simp: insert_or_replace_def update_conv map_add_def split: option.splits)
qed

lemma price_at_cached: "price_at (get_cached_prices w d r) h = map_of (price_cache w) (d, r, h)"
  by (auto simp: price_at_def get_cached_prices_def Let_def map_of_select_rows [symmetric])

text \<open>
  Claim C4, as the code has it. A cache write upserts exactly the (hour, price) pairs it
  is given: a later read of the key finds, for an hour of the list, the last price
  listed for it, and for any other hour the price that was cached before (old rows are
  kept and merged with the new ones); the rows of every other key and the request log
  are untouched. The list may have any number of entries.
\<close>

theorem cache_write_upserts:
  "price_at (get_cached_prices (cache_prices w d r prices) d r) h =
     (case map_of (rev prices) h of
        Some p \<Rightarrow> Some p
      | None \<Rightarrow> price_at (get_cached_prices w d r) h) \<and>
   ((d', r') \<noteq> (d, r) \<longrightarrow>
      get_cached_prices (cache_prices w d r prices) d' r' = get_cached_prices w d' r') \<and>
   requests (cache_prices w d r prices) = requests w"
proof (intro conjI impI)
  show "price_at (get_cached_prices (cache_prices w d r prices) d r) h =
     (case map_of (rev prices) h of
        Some p \<Rightarrow> Some p
      | None \<Rightarrow> price_at (get_cached_prices w d r) h)"
    by (simp add: price_at_cached cache_prices_def map_of_fold_insert split: option.splits)
  show "requests (cache_prices w d r prices) = requests w"
    by (simp add: cache_prices_def)
next
  assume "(d', r') \<noteq> (d, r)"
  then show "get_cached_prices (cache_prices w d r prices) d' r' = get_cached_prices w d' r'"
    by (simp add: cache_prices_def get_cached_prices_def select_rows_fold_other)
qed

theorem cache_write_upserts_witness:
  "(1, ''NO1'') \<noteq> (0 :: int, ''NO1'') \<and>
   price_at (get_cached_prices (cache_prices two_hours_cached 0 ''NO1'' [(0, 5)]) 0 ''NO1'') 0 = Some 5 \<and>
   price_at (get_cached_prices (cache_prices two_hours_cached 0 ''NO1'' [(0, 5)]) 0 ''NO1'') 1 = Some 2 \<and>
   get_cached_prices (cache_prices two_hours_cached 0 ''NO1'' [(0, 5)]) 1 ''NO1'' = None \<and>
   requests (cache_prices two_hours_cached 0 ''NO1'' [(0, 5)]) = []"
  using cache_write_upserts [of two_hours_cached 0 "''NO1''" "[(0, 5)]" 0 1 "''NO1''"]
    cache_write_upserts [of two_hours_cached 0 "''NO1''" "[(0, 5)]" 1 1 "''NO1''"]
  by (simp add: two_hours_cached_def get_cached_prices_def select_rows_def price_at_def)

text \<open>
  Claim C4 as stated fails. A write of one pair leaves a one-entry curve; a second write
  for the same key is merged with the rows of the first; and a fetch of a 23-hour day
  caches, and a later read returns, a curve of 23 entries.
\<close>

theorem cache_write_partial_or_merged:
  "get_cached_prices (cache_prices empty_world 0 ''NO1'' [(0, 1)]) 0 ''NO1'' = Some [(0, 1)] \<and>
   get_cached_prices
     (cache_prices (cache_prices empty_world 0 ''NO1'' [(0, 1), (1, 2)]) 0 ''NO1'' [(0, 5)])
     0 ''NO1'' = Some [(0, 5), (1, 2)] \<and>
   map_option length
     (get_cached_prices (snd (fetch_daily_prices spring_forward empty_world 0 ''NO1'')) 0 ''NO1'')
     = Some 23"
  by code_simp

section \<open>Hour fractions and the duration\<close>

lemma HOUR_pos: "0 < HOUR" by (simp add: HOUR_def)

lemma replace_to_hour_bounds: "replace_to_hour s \<le> s \<and> s < replace_to_hour s + HOUR"
  using pos_mod_bound [of HOUR s] pos_mod_sign [of HOUR s] HOUR_pos
  by (simp add: replace_to_hour_def)

lemma total_hours_of_mono: "a \<le> b \<Longrightarrow> total_hours_of a \<le> total_hours_of b"
  by (simp add: total_hours_of_def HOUR_def divide_right_mono)

lemma total_hours_of_pos: "0 < total_hours_of a \<longleftrightarrow> 0 < a"
  by (simp add: total_hours_of_def HOUR_def zero_less_divide_iff)

lemma hour_fraction_pos:
  "s < e \<Longrightarrow> b < e \<Longrightarrow> s < b + HOUR \<Longrightarrow> 0 < hour_fraction s e b"
  using HOUR_pos by (simp add: hour_fraction_def Let_def total_hours_of_pos)

lemma hour_fraction_mono:
  "t1 \<le> t2 \<Longrightarrow> hour_fraction s t1 b \<le> hour_fraction s t2 b"
  by (simp add: hour_fraction_def Let_def total_hours_of_mono)

lemma buckets_from_range:
  "b \<in> set (buckets_from c e) \<Longrightarrow> c \<le> b \<and> b < e"
proof (induction c e rule: buckets_from.induct)
  case (1 current "end")
  show ?case
  proof (cases "current < end")
    case True
    with "1.prems" have "b = current \<or> b \<in> set (buckets_from (current + HOUR) end)"
      by (subst (asm) buckets_from.simps) simp
    then show ?thesis
      using "1.IH" [OF True] True HOUR_pos by auto
  next
    case False
    with "1.prems" show ?thesis by (subst (asm) buckets_from.simps) simp
  qed
qed

lemma buckets_fraction_pos:
  assumes "s < e" "s < c + HOUR" "b \<in> set (buckets_from c e)"
  shows "0 < hour_fraction s e b"
proof -
  from buckets_from_range [OF assms(3)] have "c \<le> b" "b < e" by auto
  with assms show ?thesis by (intro hour_fraction_pos) auto
qed

lemma sum_fractions_from:
  "s \<le> c \<Longrightarrow>
   sum_list (map (hour_fraction s e) (buckets_from c e)) =
     (if c < e then total_hours_of (e - c) else 0)"
proof (induction c e rule: buckets_from.induct)
  case (1 current "end")
  show ?case
  proof (cases "current < end")
    case True
    have ih: "sum_list (map (hour_fraction s end) (buckets_from (current + HOUR) end)) =
        (if current + HOUR < end then total_hours_of (end - (current + HOUR)) else 0)"
      using "1.IH" [OF True] "1.prems" HOUR_pos by simp
    have f: "hour_fraction s end current = total_hours_of (min (current + HOUR) end - current)"
      using "1.prems" by (simp add: hour_fraction_def Let_def max_def)
    have "sum_list (map (hour_fraction s end) (buckets_from current end)) =
        hour_fraction s end current +
        sum_list (map (hour_fraction s end) (buckets_from (current + HOUR) end))"
      using True by (subst buckets_from.simps) simp
    also have "\<dots> = total_hours_of (end - current)"
      unfolding ih f by (simp add: total_hours_of_def min_def diff_divide_distrib add_divide_distrib)
    finally show ?thesis using True by simp
  next
    case False
    then show ?thesis by (subst buckets_from.simps) simp
  qed
qed

lemma sum_fractions_buckets:
  assumes "s < e"
  shows "sum_list (map (hour_fraction s e) (hour_buckets s e)) = total_hours_of (e - s)"
proof -
  let ?c = "replace_to_hour s"
  have c: "?c \<le> s" "s < ?c + HOUR" using replace_to_hour_bounds by auto
  with assms have lt: "?c < e" by simp
  have f: "hour_fraction s e ?c = total_hours_of (min (?c + HOUR) e - s)"
    using c by (simp add: hour_fraction_def Let_def max_def)
  have rest: "sum_list (map (hour_fraction s e) (buckets_from (?c + HOUR) e)) =
      (if ?c + HOUR < e then total_hours_of (e - (?c + HOUR)) else 0)"
    using c by (intro sum_fractions_from) simp
  have "sum_list (map (hour_fraction s e) (hour_buckets s e)) =
      hour_fraction s e ?c + sum_list (map (hour_fraction s e) (buckets_from (?c + HOUR) e))"
    unfolding hour_buckets_def using lt by (subst buckets_from.simps) simp
  also have "\<dots> = total_hours_of (e - s)"
    unfolding rest f by (simp add: total_hours_of_def min_def diff_divide_distrib add_divide_distrib)
  finally show ?thesis .
qed

lemma period_loop_subseq:
  "period_loop ev region e c acc w = (Inr res, w') \<Longrightarrow>
   \<exists>l. res = acc @ l \<and> subseq (map fst l) (buckets_from c e)"
proof (induction ev region e c acc w rule: period_loop.induct)
  case (1 ev region "end" current prices_list w)
  show ?case
  proof (cases "current < end")
    case True
    obtain r w1 where g: "get_price_for_hour ev w current region = (r, w1)"
      by (cases "get_price_for_hour ev w current region")
    show ?thesis
    proof (cases r)
      case (Inl err)
      with True g "1.prems" show ?thesis
        by (subst (asm) period_loop.simps) simp
    next
      case (Inr price)
      let ?acc = "case price of None \<Rightarrow> prices_list | Some p \<Rightarrow> prices_list @ [(current, p)]"
      from True g Inr "1.prems"
      have "period_loop ev region end (current + HOUR) ?acc w1 = (Inr res, w')"
        by (subst (asm) period_loop.simps) simp
      from "1.IH" [OF True g [symmetric] Inr this]
      obtain l where l: "res = ?acc @ l" "subseq (map fst l) (buckets_from (current + HOUR) end)"
        by blast
      have b: "buckets_from current end = current # buckets_from (current + HOUR) end"
        using True by (subst buckets_from.simps) simp
      show ?thesis
      proof (cases price)
        case None
        with l b show ?thesis by (intro exI [of _ l]) (simp add: list_emb_Cons)
      next
        case (Some p)
        with l b show ?thesis by (intro exI [of _ "(current, p) # l"]) simp
      qed
    qed
  next
    case False
    with "1.prems" have "res = prices_list"
      by (subst (asm) period_loop.simps) simp
    then show ?thesis by simp
  qed
qed

lemma subseq_sum_le:
  fixes f :: "'a \<Rightarrow> rat"
  shows "subseq xs ys \<Longrightarrow> (\<And>y. y \<in> set ys \<Longrightarrow> 0 \<le> f y) \<Longrightarrow>
   sum_list (map f xs) \<le> sum_list (map f ys)"
proof (induction rule: list_emb.induct)
  case (list_emb_Nil ys)
  then have "0 \<le> sum_list (map f ys)" by (intro sum_list_nonneg) auto
  then show ?case by simp
next
  case (list_emb_Cons xs ys y)
  then have "sum_list (map f xs) \<le> sum_list (map f ys)" by simp
  moreover have "0 \<le> f y" using list_emb_Cons.prems by simp
  ultimately show ?case by simp
next
  case (list_emb_Cons2 x y xs ys)
  then show ?case by simp
qed

lemma used_fractions_all_pos:
  "(\<And>b. b \<in> fst ` set hp \<Longrightarrow> 0 < hour_fraction s e b) \<Longrightarrow>
   used_fractions s e hp = map (hour_fraction s e) (map fst hp)"
  by (induction hp) (auto simp: used_fractions_def)

lemma session_loop_energy:
  "snd (snd (session_loop s e watt hp (bd, sp, k))) =
     k + sum_list (used_fractions s e hp) * (of_int watt / 1000)"
proof (induction hp arbitrary: bd sp k)
  case Nil
  then show ?case by (simp add: used_fractions_def)
next
  case (Cons x hp)
  obtain b p where x: "x = (b, p)" by (cases x)
  show ?case
    using Cons.IH by (simp add: x Let_def used_fractions_def algebra_simps)
qed


text \<open>
  What the per-hour path does guarantee. For an interval with start before end, the hours that
  \<^verbatim>\<open>get_prices_for_period\<close> lists are a subsequence of the hour buckets of the interval:
  an hour without a resolvable price is left out (and nothing fails for it). The
  fractions the engine adds up sum to at most the duration in hours, and to exactly the
  duration when every bucket was listed; the accumulated energy is that sum times
  watt / 1000. The loop passes over an hour whose price is \<^verbatim>\<open>None\<close> and goes on with
  the next.
\<close>

theorem hour_fractions_sum:
  assumes "start_time < end_time"
    and "get_prices_for_period ev w start_time end_time region = (Inr hourly_prices, w')"
  shows "subseq (map fst hourly_prices) (hour_buckets start_time end_time) \<and>
     sum_list (used_fractions start_time end_time hourly_prices) \<le>
       total_hours_of (end_time - start_time) \<and>
     (map fst hourly_prices = hour_buckets start_time end_time \<longrightarrow>
        sum_list (used_fractions start_time end_time hourly_prices) =
          total_hours_of (end_time - start_time)) \<and>
     snd (snd (session_loop start_time end_time watt hourly_prices ([], 0, 0))) =
       sum_list (used_fractions start_time end_time hourly_prices) * (of_int watt / 1000) \<and>
     (\<forall>current prices_list w0 w1.
        current < end_time \<and> get_price_for_hour ev w0 current region = (Inr None, w1) \<longrightarrow>
        period_loop ev region end_time current prices_list w0 =
          period_loop ev region end_time (current + HOUR) prices_list w1)"
proof -
  let ?bs = "hour_buckets start_time end_time"
  let ?f = "hour_fraction start_time end_time"
  from period_loop_subseq [OF assms(2) [unfolded get_prices_for_period_def]]
  have sub: "subseq (map fst hourly_prices) ?bs"
    by (simp add: hour_buckets_def)
  have pos: "0 < ?f b" if "b \<in> set ?bs" for b
    using that assms(1) replace_to_hour_bounds [of start_time]
    unfolding hour_buckets_def by (intro buckets_fraction_pos) auto
  have "b \<in> set ?bs" if "b \<in> set (map fst hourly_prices)" for b
    using list_emb_set [OF sub that] by auto
  then have used: "used_fractions start_time end_time hourly_prices = map ?f (map fst hourly_prices)"
    using pos by (intro used_fractions_all_pos) auto
  have le: "sum_list (map ?f (map fst hourly_prices)) \<le> sum_list (map ?f ?bs)"
    using sub pos by (intro subseq_sum_le) (auto intro: less_imp_le)
  have total: "sum_list (map ?f ?bs) = total_hours_of (end_time - start_time)"
    using assms(1) by (rule sum_fractions_buckets)
  have bound: "sum_list (used_fractions start_time end_time hourly_prices) \<le>
      total_hours_of (end_time - start_time)"
    using le by (simp only: used total)
  have exact: "sum_list (used_fractions start_time end_time hourly_prices) =
      total_hours_of (end_time - start_time)"
    if "map fst hourly_prices = ?bs"
    by (simp only: used that total)
  have energy: "snd (snd (session_loop start_time end_time watt hourly_prices ([], 0, 0))) =
      sum_list (used_fractions start_time end_time hourly_prices) * (of_int watt / 1000)"
    using session_loop_energy [of start_time end_time watt hourly_prices "[]" 0 0] by simp
  have skip: "period_loop ev region end_time current prices_list w0 =
      period_loop ev region end_time (current + HOUR) prices_list w1"
    if "current < end_time \<and> get_price_for_hour ev w0 current region = (Inr None, w1)"
    for current prices_list w0 w1
    using that by (subst period_loop.simps) simp
  show ?thesis
    using sub bound exact energy skip by blast
qed

theorem hour_fractions_sum_witness:
  "(1800000000::int) < 8100000000 \<and>
   fst (get_prices_for_period every_day empty_world 1800000000 8100000000 ''NO1'') =
     Inr [(0, 5 / 4), (HOUR, 5 / 4), (2 * HOUR, 5 / 4)] \<and>
   hour_buckets 1800000000 8100000000 = [0, HOUR, 2 * HOUR] \<and>
   used_fractions 1800000000 8100000000 [(0, 5 / 4), (HOUR, 5 / 4), (2 * HOUR, 5 / 4)] =
     [1 / 2, 1, 1 / 4] \<and>
   sum_list (used_fractions 1800000000 8100000000 [(0, 5 / 4), (HOUR, 5 / 4), (2 * HOUR, 5 / 4)]) =
     total_hours_of (8100000000 - 1800000000) \<and>
   total_hours_of (8100000000 - 1800000000) = 7 / 4"
proof -
  let ?hp = "[(0, 5 / 4), (HOUR, 5 / 4), (2 * HOUR, 5 / 4)] :: (int \<times> rat) list"
  have h1: "(1800000000::int) < 8100000000" by simp
  have f: "fst (get_prices_for_period every_day empty_world 1800000000 8100000000 ''NO1'') = Inr ?hp"
    by code_simp
  have h2: "get_prices_for_period every_day empty_world 1800000000 8100000000 ''NO1'' =
      (Inr ?hp, snd (get_prices_for_period every_day empty_world 1800000000 8100000000 ''NO1''))"
    using f by (simp add: prod_eq_iff)
  have b: "hour_buckets 1800000000 8100000000 = [0, HOUR, 2 * HOUR]"
    by code_simp
  have u: "used_fractions 1800000000 8100000000 ?hp = [1 / 2, 1, 1 / 4]"
    by code_simp
  have t: "total_hours_of (8100000000 - 1800000000) = 7 / 4"
    by code_simp
  have "sum_list (used_fractions 1800000000 8100000000 ?hp) =
      total_hours_of (8100000000 - 1800000000)"
    using hour_fractions_sum [OF h1 h2] b by simp
  then show ?thesis
    using h1 f b u t by simp
qed

text \<open>
  Claim C3 at a failing input. From 23:00 of day 0 to 01:00 of day 1 at 1000 W, with
  prices for day 0 only, the hour 00:00 is left out of the list: the fractions the
  engine adds up sum to 1 while the duration is 2 hours, and the result reports 2 hours
  and 1 kWh, the energy of one hour. On the same interval with no hour priced, the
  fallback branch counts the whole duration, 2 kWh.
\<close>

theorem unpriced_hour_omitted:
  "fst (get_prices_for_period day0_only empty_world (23 * HOUR) (25 * HOUR) ''NO1'') =
     Inr [(23 * HOUR, 5 / 4)] \<and>
   hour_buckets (23 * HOUR) (25 * HOUR) = [23 * HOUR, 24 * HOUR] \<and>
   sum_list (used_fractions (23 * HOUR) (25 * HOUR) [(23 * HOUR, 5 / 4)]) = 1 \<and>
   total_hours_of (25 * HOUR - 23 * HOUR) = 2 \<and>
   fst (calculate_session_cost day0_only empty_world (23 * HOUR) (25 * HOUR) 1000 1 ''NO1'') =
     Inr \<lparr>hours = 2, kwh = 1, spot_cost = 5 / 4, fixed_cost = 1, total_cost = 9 / 4,
          avg_spot_price = 5 / 4,
          hourly_breakdown = [\<lparr>row_hour = 23, row_fraction = 1, row_price = 5 / 4,
                                row_kwh = 1, row_cost = 5 / 4\<rparr>]\<rparr> \<and>
   fst (calculate_session_cost offline empty_world (23 * HOUR) (25 * HOUR) 1000 1 ''NO1'') =
     Inr \<lparr>hours = 2, kwh = 2, spot_cost = 3, fixed_cost = 2, total_cost = 5,
          avg_spot_price = 3 / 2, hourly_breakdown = []\<rparr>"
  by code_simp

section \<open>Repeated estimates\<close>

lemma py_round_mono:
  assumes "x \<le> y"
  shows "py_round x n \<le> py_round y n"
proof -
  define rnd :: "rat \<Rightarrow> int" where
    "rnd z = (let f = \<lfloor>z\<rfloor>; d = z - of_int f
              in if d < 1 / 2 then f else if 1 / 2 < d then f + 1
                 else if even f then f else f + 1)" for z
  have pr: "py_round z n = of_int (rnd (z * 10 ^ n)) / 10 ^ n" for z
    by (simp add: py_round_def rnd_def Let_def)
  have lo: "\<lfloor>z\<rfloor> \<le> rnd z" and hi: "rnd z \<le> \<lfloor>z\<rfloor> + 1" for z
    by (simp_all add: rnd_def Let_def)
  have mono: "rnd a \<le> rnd b" if ab: "a \<le> b" for a b
  proof (cases "\<lfloor>a\<rfloor> = \<lfloor>b\<rfloor>")
    case True
    have "a - of_int \<lfloor>a\<rfloor> \<le> b - of_int \<lfloor>a\<rfloor>" using ab by simp
    then show ?thesis
      unfolding rnd_def Let_def True [symmetric] by auto
  next
    case False
    have "\<lfloor>a\<rfloor> \<le> \<lfloor>b\<rfloor>" using ab by (rule floor_mono)
    with False have "\<lfloor>a\<rfloor> + 1 \<le> \<lfloor>b\<rfloor>" by simp
    with hi [of a] lo [of b] show ?thesis by linarith
  qed
  have "x * 10 ^ n \<le> y * 10 ^ n" using assms by (simp add: mult_right_mono)
  then have "rnd (x * 10 ^ n) \<le> rnd (y * 10 ^ n)" by (rule mono)
  then show ?thesis
    unfolding pr by (simp add: divide_right_mono)
qed

lemma session_loop_spot:
  "fst (snd (session_loop s e watt hp (bd, sp, k))) =
     sp + sum_list (map (\<lambda>x. if hour_fraction s e (fst x) \<le> 0 then 0
                               else hour_fraction s e (fst x) * (of_int watt / 1000) * snd x) hp)"
proof (induction hp arbitrary: bd sp k)
  case Nil
  then show ?case by simp
next
  case (Cons x hp)
  obtain b p where x: "x = (b, p)" by (cases x)
  show ?case
    using Cons.IH by (simp add: x Let_def algebra_simps)
qed

lemma weighted_sum_mono:
  fixes g :: "int \<Rightarrow> rat"
  assumes g: "\<And>b. 0 \<le> g b"
  shows "t1 \<le> t2 \<Longrightarrow> s < t1 \<Longrightarrow> s < c + HOUR \<Longrightarrow>
    sum_list (map (\<lambda>b. hour_fraction s t1 b * g b) (buckets_from c t1)) \<le>
    sum_list (map (\<lambda>b. hour_fraction s t2 b * g b) (buckets_from c t2))"
proof (induction c t1 rule: buckets_from.induct)
  case (1 current "end")
  show ?case
  proof (cases "current < end")
    case True
    then have lt2: "current < t2" using "1.prems" by simp
    have ih: "sum_list (map (\<lambda>b. hour_fraction s end b * g b) (buckets_from (current + HOUR) end))
        \<le> sum_list (map (\<lambda>b. hour_fraction s t2 b * g b) (buckets_from (current + HOUR) t2))"
      using "1.IH" [OF True] "1.prems" HOUR_pos by simp
    have hd: "hour_fraction s end current * g current \<le> hour_fraction s t2 current * g current"
      using "1.prems"(1) g by (intro mult_right_mono hour_fraction_mono)
    have l: "buckets_from current end = current # buckets_from (current + HOUR) end"
      using True by (subst buckets_from.simps) simp
    have r: "buckets_from current t2 = current # buckets_from (current + HOUR) t2"
      using lt2 by (subst buckets_from.simps) simp
    show ?thesis unfolding l r using ih hd by simp
  next
    case False
    then have l: "buckets_from current end = []" by (subst buckets_from.simps) simp
    have "0 \<le> sum_list (map (\<lambda>b. hour_fraction s t2 b * g b) (buckets_from current t2))"
    proof (intro sum_list_nonneg)
      fix x assume "x \<in> set (map (\<lambda>b. hour_fraction s t2 b * g b) (buckets_from current t2))"
      then obtain b where b: "b \<in> set (buckets_from current t2)" "x = hour_fraction s t2 b * g b"
        by auto
      have "0 < hour_fraction s t2 b"
        using "1.prems" b(1) by (intro buckets_fraction_pos [of s t2 current]) auto
      with g [of b] b(2) show "0 \<le> x" by simp
    qed
    then show ?thesis unfolding l by simp
  qed
qed

lemma complete_loop_sums:
  assumes "s < e"
  shows "session_loop s e watt (map (\<lambda>b. (b, price b)) (hour_buckets s e)) ([], 0, 0) =
    (fst (session_loop s e watt (map (\<lambda>b. (b, price b)) (hour_buckets s e)) ([], 0, 0)),
     sum_list (map (\<lambda>b. hour_fraction s e b * (of_int watt / 1000 * price b)) (hour_buckets s e)),
     total_hours_of (e - s) * (of_int watt / 1000))"
proof -
  let ?hp = "map (\<lambda>b. (b, price b)) (hour_buckets s e)"
  have pos: "0 < hour_fraction s e b" if "b \<in> set (hour_buckets s e)" for b
    using that assms replace_to_hour_bounds [of s]
    unfolding hour_buckets_def by (intro buckets_fraction_pos) auto
  have "fst (snd (session_loop s e watt ?hp ([], 0, 0))) =
      sum_list (map (\<lambda>x. if hour_fraction s e (fst x) \<le> 0 then 0
                          else hour_fraction s e (fst x) * (of_int watt / 1000) * snd x) ?hp)"
    using session_loop_spot [of s e watt ?hp "[]" 0 0] by simp
  also have "\<dots> = sum_list (map (\<lambda>b. hour_fraction s e b * (of_int watt / 1000 * price b))
      (hour_buckets s e))"
    unfolding map_map
    by (intro arg_cong [where f = sum_list] map_cong refl) (use pos in \<open>auto simp: not_le [symmetric]\<close>)
  finally have spot: "fst (snd (session_loop s e watt ?hp ([], 0, 0))) =
      sum_list (map (\<lambda>b. hour_fraction s e b * (of_int watt / 1000 * price b)) (hour_buckets s e))" .
  have "used_fractions s e ?hp = map (hour_fraction s e) (map fst ?hp)"
    using pos by (intro used_fractions_all_pos) auto
  also have "map fst ?hp = hour_buckets s e"
    by (simp add: comp_def)
  finally have "sum_list (used_fractions s e ?hp) = total_hours_of (e - s)"
    using sum_fractions_buckets [OF assms] by simp
  then have energy: "snd (snd (session_loop s e watt ?hp ([], 0, 0))) =
      total_hours_of (e - s) * (of_int watt / 1000)"
    using session_loop_energy [of s e watt ?hp "[]" 0 0] by simp
  show ?thesis
    using spot energy by (simp add: prod_eq_iff)
qed

lemma hour_buckets_nonempty: "s < e \<Longrightarrow> hour_buckets s e \<noteq> []"
  using replace_to_hour_bounds [of s]
  unfolding hour_buckets_def by (subst buckets_from.simps) simp


lemma estimates_monotone_listed:
  assumes "t1 \<le> t2" and "start_time < t1" and "0 \<le> watt" and "0 \<le> fixed_cost_per_kwh"
    and "\<forall>b. 0 \<le> price b"
    and "get_prices_for_period (ev\<lparr>now := t1\<rparr>) w start_time t1 region =
           (Inr (map (\<lambda>b. (b, price b)) (hour_buckets start_time t1)), w1)"
    and "get_prices_for_period (ev\<lparr>now := t2\<rparr>) w1 start_time t2 region =
           (Inr (map (\<lambda>b. (b, price b)) (hour_buckets start_time t2)), w2)"
  shows "(\<forall>ev' w'. estimate_current_cost ev' w' start_time watt fixed_cost_per_kwh region =
            calculate_session_cost ev' w' start_time (now ev') watt fixed_cost_per_kwh region) \<and>
     (\<exists>r1 r2.
        estimate_current_cost (ev\<lparr>now := t1\<rparr>) w start_time watt fixed_cost_per_kwh region =
          (Inr r1, w1) \<and>
        estimate_current_cost (ev\<lparr>now := t2\<rparr>) w1 start_time watt fixed_cost_per_kwh region =
          (Inr r2, w2) \<and>
        kwh r1 \<le> kwh r2 \<and> total_cost r1 \<le> total_cost r2)"
proof -
  let ?k = "of_int watt / 1000 :: rat"
  let ?hp = "\<lambda>t. map (\<lambda>b. (b, price b)) (hour_buckets start_time t)"
  let ?S = "\<lambda>t. sum_list (map (\<lambda>b. hour_fraction start_time t b * (?k * price b))
                (hour_buckets start_time t))"
  let ?E = "\<lambda>t. total_hours_of (t - start_time) * ?k"
  let ?r = "\<lambda>t. hourly_result (total_hours_of (t - start_time)) fixed_cost_per_kwh
              (session_loop start_time t watt (?hp t) ([], 0, 0))"
  have lt2: "start_time < t2" using assms(1,2) by simp
  have k: "0 \<le> ?k" using assms(3) by simp
  have th: "\<not> total_hours_of (t - start_time) \<le> 0" if "start_time < t" for t
    using that by (simp add: total_hours_of_def HOUR_def divide_le_0_iff)
  have est: "estimate_current_cost (ev\<lparr>now := t\<rparr>) w0 start_time watt fixed_cost_per_kwh region =
      (Inr (?r t), w')"
    if "start_time < t"
      and "get_prices_for_period (ev\<lparr>now := t\<rparr>) w0 start_time t region = (Inr (?hp t), w')"
    for t w0 w'
    using that th [OF that(1)] hour_buckets_nonempty [OF that(1)]
    by (simp add: estimate_current_cost_def calculate_session_cost_def Let_def)
  have fields: "kwh (?r t) = py_round (?E t) 4 \<and>
      total_cost (?r t) = py_round (?S t + ?E t * fixed_cost_per_kwh) 2"
    if "start_time < t" for t
    by (subst complete_loop_sums [OF that], subst complete_loop_sums [OF that])
       (simp add: hourly_result_def Let_def)
  have E: "?E t1 \<le> ?E t2"
    using assms(1) k by (intro mult_right_mono total_hours_of_mono) simp_all
  have S: "?S t1 \<le> ?S t2"
    unfolding hour_buckets_def
    using assms(1,2,5) k replace_to_hour_bounds [of start_time]
    by (intro weighted_sum_mono) (simp_all)
  have T: "?S t1 + ?E t1 * fixed_cost_per_kwh \<le> ?S t2 + ?E t2 * fixed_cost_per_kwh"
  proof (rule add_mono)
    show "?S t1 \<le> ?S t2" by (rule S)
    show "?E t1 * fixed_cost_per_kwh \<le> ?E t2 * fixed_cost_per_kwh"
      using E assms(4) by (rule mult_right_mono)
  qed
  have "kwh (?r t1) \<le> kwh (?r t2) \<and> total_cost (?r t1) \<le> total_cost (?r t2)"
    using fields [OF assms(2)] fields [OF lt2] py_round_mono [OF E, of 4] py_round_mono [OF T, of 2]
    by simp
  then show ?thesis
    using est [OF assms(2) assms(6)] est [OF lt2 assms(7)]
    by (auto simp: estimate_current_cost_def)
qed

lemma parse_entries_distinct:
  "parse_entries m data acc = Inr prices \<Longrightarrow> distinct (map fst acc) \<Longrightarrow> distinct (map fst prices)"
  by (induction data arbitrary: acc)
    (auto split: option.splits timestamp.splits simp: distinct_update)

lemma map_of_rev_distinct: "distinct (map fst xs) \<Longrightarrow> map_of (rev xs) = map_of xs"
  by (rule ext) (metis distinct_rev map_of_eq_Some_iff not_None_eq option.exhaust rev_map set_rev)

lemma map_of_fold_insert_other:
  "(d', r') \<noteq> (d, r) \<Longrightarrow>
   map_of (fold (insert_or_replace d r) prices tbl) (d', r', h) = map_of tbl (d', r', h)"
  by (induction prices arbitrary: tbl) (auto simp: insert_or_replace_def update_conv)

lemma price_at_Some: "price_at (Some c) h = map_of c h"
  by (simp add: price_at_def)

lemma coherent_requests [simp]: "coherent ev (w\<lparr>requests := q\<rparr>) = coherent ev w"
  by (simp add: coherent_def)

lemma upstream_curve_now [simp]: "upstream_curve (ev\<lparr>now := t\<rparr>) = upstream_curve ev"
  by (intro ext) (simp add: upstream_curve_def)

lemma coherent_now [simp]: "coherent (ev\<lparr>now := t\<rparr>) w = coherent ev w"
  by (simp add: coherent_def)

lemma coherent_cache_prices:
  assumes "coherent ev w" and "select_rows (price_cache w) d r = []"
    and "upstream_curve ev d r = Inr (Some prices)" and "distinct (map fst prices)"
  shows "coherent ev (cache_prices w d r prices)"
  unfolding coherent_def
proof (intro allI impI)
  fix d' r'
  assume v: "r' \<in> VALID_REGIONS"
    and ne: "select_rows (price_cache (cache_prices w d r prices)) d' r' \<noteq> []"
  show "\<exists>c. upstream_curve ev d' r' = Inr (Some c) \<and>
      (\<forall>h. map_of c h = map_of (price_cache (cache_prices w d r prices)) (d', r', h))"
  proof (cases "(d', r') = (d, r)")
    case True
    have none: "map_of (price_cache w) (d, r, h) = None" for h
      using assms(2) map_of_select_rows [of "price_cache w" d r h] by simp
    have "map_of prices h = map_of (price_cache (cache_prices w d r prices)) (d, r, h)" for h
      by (simp add: cache_prices_def map_of_fold_insert map_of_rev_distinct [OF assms(4)] none
          split: option.splits)
    with True assms(3) show ?thesis by auto
  next
    case False
    then have "select_rows (price_cache w) d' r' \<noteq> []"
      using ne by (simp add: cache_prices_def select_rows_fold_other)
    with assms(1) v obtain c where "upstream_curve ev d' r' = Inr (Some c)"
      "\<forall>h. map_of c h = map_of (price_cache w) (d', r', h)"
      unfolding coherent_def by blast
    with False show ?thesis
      by (auto simp: cache_prices_def map_of_fold_insert_other)
  qed
qed

lemma get_price_for_hour_coherent:
  assumes "coherent ev w" and "region \<in> VALID_REGIONS"
  shows "fst (get_price_for_hour ev w t region) = upstream_price ev region t \<and>
     coherent ev (snd (get_price_for_hour ev w t region))"
proof (cases "select_rows (price_cache w) (date_str t) region = []")
  case True
  note miss = True
  show ?thesis
  proof (cases "upstream ev (date_str t) region")
    case ClientError
    with miss assms show ?thesis
      by (simp add: get_price_for_hour_def fetch_daily_prices_def get_cached_prices_def
          upstream_price_def upstream_curve_def)
  next
    case (HttpResponse status data)
    show ?thesis
    proof (cases "status = 200")
      case False
      with HttpResponse miss assms show ?thesis
        by (simp add: get_price_for_hour_def fetch_daily_prices_def get_cached_prices_def
            upstream_price_def upstream_curve_def)
    next
      case True
      show ?thesis
      proof (cases "parse_entries (if region \<in> MVA_EXEMPT_REGIONS then 1 else 1 + MVA_RATE) data []")
        case (Inl e)
        with True HttpResponse miss assms show ?thesis
          by (simp add: get_price_for_hour_def fetch_daily_prices_def get_cached_prices_def
              upstream_price_def upstream_curve_def)
      next
        case (Inr prices)
        have uc: "upstream_curve ev (date_str t) region = Inr (Some prices)"
          using Inr True HttpResponse by (simp add: upstream_curve_def)
        have d: "distinct (map fst prices)"
          using parse_entries_distinct [OF Inr] by simp
        let ?w1 = "w\<lparr>requests := requests w @ [(date_str t, region)]\<rparr>"
        have "coherent ev (cache_prices ?w1 (date_str t) region prices)"
          using assms(1) miss uc d by (intro coherent_cache_prices) simp_all
        with Inr True HttpResponse miss assms uc show ?thesis
          by (simp add: get_price_for_hour_def fetch_daily_prices_def get_cached_prices_def
              upstream_price_def Let_def)
      qed
    qed
  qed
next
  case False
  with assms obtain c where c: "upstream_curve ev (date_str t) region = Inr (Some c)"
    "\<forall>h. map_of c h = map_of (price_cache w) (date_str t, region, h)"
    unfolding coherent_def by blast
  have "price_at (Some (select_rows (price_cache w) (date_str t) region)) (hour_of t) =
      price_at (Some c) (hour_of t)"
    using c(2) by (simp add: price_at_Some map_of_select_rows)
  with False assms c(1) show ?thesis
    by (simp add: get_price_for_hour_def fetch_daily_prices_def get_cached_prices_def
        upstream_price_def)
qed

lemma period_loop_coherent:
  "region \<in> VALID_REGIONS \<Longrightarrow> coherent ev w \<Longrightarrow>
    (\<And>b. b \<in> set (buckets_from c e) \<Longrightarrow> upstream_price ev region b = Inr (Some (price b))) \<Longrightarrow>
    fst (period_loop ev region e c acc w) = Inr (acc @ map (\<lambda>b. (b, price b)) (buckets_from c e)) \<and>
    coherent ev (snd (period_loop ev region e c acc w))"
proof (induction ev region e c acc w rule: period_loop.induct)
  case (1 ev region "end" current prices_list w)
  note valid = "1.prems"(1) and coh = "1.prems"(2) and priced = "1.prems"(3)
  show ?case
  proof (cases "current < end")
    case True
    have b: "buckets_from current end = current # buckets_from (current + HOUR) end"
      using True by (subst buckets_from.simps) simp
    obtain r w1 where g: "get_price_for_hour ev w current region = (r, w1)"
      by (cases "get_price_for_hour ev w current region")
    have r: "r = upstream_price ev region current" and w1: "coherent ev w1"
      using get_price_for_hour_coherent [OF coh valid, of current] g by simp_all
    have "upstream_price ev region current = Inr (Some (price current))"
      using priced [of current] b by simp
    with r have r': "r = Inr (Some (price current))" by simp
    have step: "period_loop ev region end current prices_list w =
        period_loop ev region end (current + HOUR) (prices_list @ [(current, price current)]) w1"
      using True g r' by (subst period_loop.simps) simp
    have "fst (period_loop ev region end (current + HOUR)
              (prices_list @ [(current, price current)]) w1) =
          Inr ((prices_list @ [(current, price current)]) @
               map (\<lambda>b. (b, price b)) (buckets_from (current + HOUR) end)) \<and>
        coherent ev (snd (period_loop ev region end (current + HOUR)
              (prices_list @ [(current, price current)]) w1))"
      using "1.IH" [OF True g [symmetric] r' valid] w1 priced b
      by simp
    then show ?thesis unfolding step b by simp
  next
    case False
    then have b: "buckets_from current end = []" by (subst buckets_from.simps) simp
    from False have "period_loop ev region end current prices_list w = (Inr prices_list, w)"
      by (subst period_loop.simps) simp
    with coh b show ?thesis by simp
  qed
qed

lemma buckets_from_prefix:
  "t1 \<le> t2 \<Longrightarrow> b \<in> set (buckets_from c t1) \<Longrightarrow> b \<in> set (buckets_from c t2)"
proof (induction c t1 rule: buckets_from.induct)
  case (1 current "end")
  show ?case
  proof (cases "current < end")
    case True
    then have r: "buckets_from current t2 = current # buckets_from (current + HOUR) t2"
      using "1.prems"(1) by (subst buckets_from.simps) simp
    from True "1.prems"(2) have "b = current \<or> b \<in> set (buckets_from (current + HOUR) end)"
      by (subst (asm) buckets_from.simps) simp
    then show ?thesis
      using "1.IH" [OF True "1.prems"(1)] r by auto
  next
    case False
    with "1.prems"(2) show ?thesis by (subst (asm) buckets_from.simps) simp
  qed
qed

text \<open>
  What repeated estimates do guarantee. The estimate is the cost computation with the
  end set to now. Take a region of the fixed set, a wattage and a fixed cost that are not
  negative, a cache that agrees with the upstream, and an upstream that serves a price,
  not negative, for every hour bucket from the start to \<open>t2\<close>. Then for a start before
  \<open>t1 \<le> t2\<close> the estimate at \<open>t1\<close> and the estimate at \<open>t2\<close>, run in the state the
  first left, both succeed, and the energy and the total cost of the first are at most
  those of the second.
\<close>

theorem estimates_monotone:
  assumes "t1 \<le> t2" and "start_time < t1" and "0 \<le> watt" and "0 \<le> fixed_cost_per_kwh"
    and "region \<in> VALID_REGIONS" and "coherent ev w"
    and "\<forall>b \<in> set (hour_buckets start_time t2).
           upstream_price ev region b = Inr (Some (price b)) \<and> 0 \<le> price b"
  shows "estimate_current_cost ev w start_time watt fixed_cost_per_kwh region =
       calculate_session_cost ev w start_time (now ev) watt fixed_cost_per_kwh region \<and>
     (\<exists>r1 w1 r2 w2.
        estimate_current_cost (ev\<lparr>now := t1\<rparr>) w start_time watt fixed_cost_per_kwh region =
          (Inr r1, w1) \<and>
        estimate_current_cost (ev\<lparr>now := t2\<rparr>) w1 start_time watt fixed_cost_per_kwh region =
          (Inr r2, w2) \<and>
        kwh r1 \<le> kwh r2 \<and> total_cost r1 \<le> total_cost r2)"
proof -
  define price' where "price' b = max 0 (price b)" for b
  have nn: "\<forall>b. 0 \<le> price' b" by (simp add: price'_def)
  have eq2: "upstream_price ev region b = Inr (Some (price' b))"
    if "b \<in> set (hour_buckets start_time t2)" for b
    using assms(7) that by (simp add: price'_def max_def)
  have eq1: "upstream_price ev region b = Inr (Some (price' b))"
    if "b \<in> set (hour_buckets start_time t1)" for b
    using eq2 [of b] that buckets_from_prefix [OF assms(1)] by (simp add: hour_buckets_def)
  have up: "upstream_price (ev\<lparr>now := t\<rparr>) region b = upstream_price ev region b" for t b
    by (simp add: upstream_price_def)
  let ?g1 = "get_prices_for_period (ev\<lparr>now := t1\<rparr>) w start_time t1 region"
  let ?w1 = "snd ?g1"
  have l1: "fst ?g1 = Inr (map (\<lambda>b. (b, price' b)) (hour_buckets start_time t1)) \<and>
      coherent (ev\<lparr>now := t1\<rparr>) ?w1"
    unfolding get_prices_for_period_def hour_buckets_def
    using period_loop_coherent [of region "ev\<lparr>now := t1\<rparr>" w "replace_to_hour start_time" t1
        price' "[]"] assms(5,6) eq1
    by (simp add: up hour_buckets_def)
  let ?g2 = "get_prices_for_period (ev\<lparr>now := t2\<rparr>) ?w1 start_time t2 region"
  have l2: "fst ?g2 = Inr (map (\<lambda>b. (b, price' b)) (hour_buckets start_time t2))"
    using period_loop_coherent [of region "ev\<lparr>now := t2\<rparr>" ?w1 "replace_to_hour start_time" t2
        price' "[]"] assms(5) l1 eq2
    by (simp add: up hour_buckets_def get_prices_for_period_def)
  have p1: "?g1 = (Inr (map (\<lambda>b. (b, price' b)) (hour_buckets start_time t1)), ?w1)"
    using l1 by (simp add: prod_eq_iff)
  have p2: "?g2 = (Inr (map (\<lambda>b. (b, price' b)) (hour_buckets start_time t2)), snd ?g2)"
    using l2 by (simp add: prod_eq_iff)
  from estimates_monotone_listed [OF assms(1-4) nn p1 p2, THEN conjunct2]
  have "\<exists>r1 w1 r2 w2.
        estimate_current_cost (ev\<lparr>now := t1\<rparr>) w start_time watt fixed_cost_per_kwh region =
          (Inr r1, w1) \<and>
        estimate_current_cost (ev\<lparr>now := t2\<rparr>) w1 start_time watt fixed_cost_per_kwh region =
          (Inr r2, w2) \<and>
        kwh r1 \<le> kwh r2 \<and> total_cost r1 \<le> total_cost r2"
    by blast
  then show ?thesis
    by (simp add: estimate_current_cost_def)
qed

theorem estimates_monotone_witness:
  "(5400000000::int) \<le> 8100000000 \<and> (1800000000::int) < 5400000000 \<and>
   (0::int) \<le> 1000 \<and> (0::rat) \<le> 1 \<and> ''NO1'' \<in> VALID_REGIONS \<and>
   get_cached_prices empty_world 0 ''NO1'' = None \<and>
   hour_buckets 1800000000 8100000000 = [0, HOUR, 2 * HOUR] \<and>
   upstream_price every_day ''NO1'' 0 = Inr (Some (5 / 4)) \<and>
   upstream_price every_day ''NO1'' HOUR = Inr (Some (5 / 4)) \<and>
   upstream_price every_day ''NO1'' (2 * HOUR) = Inr (Some (5 / 4)) \<and> (0::rat) \<le> 5 / 4 \<and>
   (\<exists>r1 w1 r2 w2.
      estimate_current_cost (every_day\<lparr>now := 5400000000\<rparr>) empty_world
        1800000000 1000 1 ''NO1'' = (Inr r1, w1) \<and>
      estimate_current_cost (every_day\<lparr>now := 8100000000\<rparr>) w1
        1800000000 1000 1 ''NO1'' = (Inr r2, w2) \<and>
      kwh r1 \<le> kwh r2 \<and> total_cost r1 \<le> total_cost r2)"
proof -
  have a1: "(5400000000::int) \<le> 8100000000" and a2: "(1800000000::int) < 5400000000"
    and a3: "(0::int) \<le> 1000" and a4: "(0::rat) \<le> 1"
    by simp_all
  have a5: "''NO1'' \<in> VALID_REGIONS"
    by (simp add: VALID_REGIONS_def)
  have a6: "coherent every_day empty_world"
    by (simp add: coherent_def empty_world_def select_rows_def)
  have b: "hour_buckets 1800000000 8100000000 = [0, HOUR, 2 * HOUR]"
    by code_simp
  have u: "upstream_price every_day ''NO1'' 0 = Inr (Some (5 / 4))"
    "upstream_price every_day ''NO1'' HOUR = Inr (Some (5 / 4))"
    "upstream_price every_day ''NO1'' (2 * HOUR) = Inr (Some (5 / 4))"
    by code_simp+
  have a7: "\<forall>b \<in> set (hour_buckets 1800000000 8100000000).
      upstream_price every_day ''NO1'' b = Inr (Some (5 / 4)) \<and> (0::rat) \<le> 5 / 4"
    unfolding b using u by simp
  have c: "get_cached_prices empty_world 0 ''NO1'' = None"
    by (simp add: get_cached_prices_def empty_world_def select_rows_def)
  show ?thesis
    using estimates_monotone [where price = "\<lambda>b. 5 / 4", OF a1 a2 a3 a4 a5 a6 a7,
        THEN conjunct2] a1 a2 a3 a4 a5 b c u
    by simp
qed

text \<open>
  Claim C9 at a failing input. Day 0 has no prices and day 1 has; the upstream is the
  same for both estimates. At 23:30 of day 0 the session begun at 22:00 at 1000 W is
  estimated on the fallback branch (1.5 hours, 1.5 kWh, total 3.75); at 00:01 of day 1
  only the hour 00:00 is priced, the two hours before it are left out, and the estimate
  reports 2.02 hours with 0.0167 kWh and a total of 0.04: energy and cost have gone
  down as time advanced.
\<close>

theorem estimate_decreases:
  "fst (estimate_current_cost (day1_only\<lparr>now := 23 * HOUR + 1800000000\<rparr>) empty_world
          (22 * HOUR) 1000 1 ''NO1'') =
     Inr \<lparr>hours = 3 / 2, kwh = 3 / 2, spot_cost = 9 / 4, fixed_cost = 3 / 2,
          total_cost = 15 / 4, avg_spot_price = 3 / 2, hourly_breakdown = []\<rparr> \<and>
   fst (estimate_current_cost (day1_only\<lparr>now := 24 * HOUR + 60000000\<rparr>)
          (snd (estimate_current_cost (day1_only\<lparr>now := 23 * HOUR + 1800000000\<rparr>) empty_world
                  (22 * HOUR) 1000 1 ''NO1''))
          (22 * HOUR) 1000 1 ''NO1'') =
     Inr \<lparr>hours = 101 / 50, kwh = 167 / 10000, spot_cost = 1 / 50, fixed_cost = 1 / 50,
          total_cost = 1 / 25, avg_spot_price = 5 / 4,
          hourly_breakdown = [\<lparr>row_hour = 0, row_fraction = 1 / 50, row_price = 5 / 4,
                                row_kwh = 167 / 10000, row_cost = 1 / 50\<rparr>]\<rparr> \<and>
   23 * HOUR + 1800000000 \<le> 24 * HOUR + 60000000 \<and>
   (167 / 10000 :: rat) < 3 / 2 \<and> (1 / 25 :: rat) < 15 / 4"
  by code_simp

end
